theory Spec2Isabelle
  imports Complex_Main "HOL-Library.Word"
begin

section \<open>Strings, numbers and dates of the host language\<close>

text \<open>
  A JavaScript string is a sequence of UTF-16 code units. String literals of the source
  are written \<open>js ''...''\<close>.
\<close>

type_synonym js_string = "16 word list"

definition js :: "string \<Rightarrow> js_string" where
  "js s = map (\<lambda>c. of_char c) s"

text \<open>
  \<open>String.prototype.trim\<close> strips the code points WhiteSpace and LineTerminator of
  ECMAScript from both ends: TAB, LF, VT, FF, CR, SP, NBSP, the Unicode space
  separators, LS, PS and the byte order mark.
\<close>

definition isWhiteSpace :: "16 word \<Rightarrow> bool" where
  "isWhiteSpace c \<longleftrightarrow>
     c \<in> {0x0009, 0x000A, 0x000B, 0x000C, 0x000D, 0x0020, 0x00A0, 0x1680,
          0x2028, 0x2029, 0x202F, 0x205F, 0x3000, 0xFEFF}
     \<or> (0x2000 \<le> c \<and> c \<le> 0x200A)"

definition trim :: "js_string \<Rightarrow> js_string" where
  "trim s = rev (dropWhile isWhiteSpace (rev (dropWhile isWhiteSpace s)))"

text \<open>\<open>Number.prototype.toString\<close> on an integer: its decimal digits, with a sign.\<close>

fun digits :: "nat \<Rightarrow> js_string" where
  "digits n = (if n < 10 then [of_nat (48 + n)]
               else digits (n div 10) @ [of_nat (48 + n mod 10)])"

declare digits.simps [simp del]

definition toString :: "int \<Rightarrow> js_string" where
  "toString i = (if i < 0 then 0x2D # digits (nat (- i)) else digits (nat i))"

text \<open>
  A \<open>Date\<close> is its time value, the milliseconds since the epoch. \<open>JSON.stringify\<close>
  writes a \<open>Date\<close> as the ISO-8601 string of that instant (\<open>Date.prototype.toJSON\<close>),
  and \<open>new Date(s)\<close> on such a string gives the instant back. The text of the string is
  not modelled: \<open>ISOString t\<close> stands for the ISO string that denotes \<open>t\<close>. Numbers are
  exact (\<open>int\<close> for the counters, \<open>real\<close> for the weight); the rounding of IEEE doubles
  and the values NaN and Infinity are not modelled, nor is the invalid \<open>Date\<close>.
\<close>

datatype Date = Date (getTime: int)

datatype ISOString = ISOString (instant: int)

definition toJSON :: "Date \<Rightarrow> ISOString" where
  "toJSON d = ISOString (getTime d)"

definition new_Date :: "ISOString \<Rightarrow> Date" where
  "new_Date s = Date (instant s)"

section \<open>Data model\<close>

text \<open>
  The source never changes an array or an object in place: every update builds a new
  array (spread, \<open>map\<close>, \<open>filter\<close>) or a new object (spread) and hands it to a state
  setter, and what goes to the store is a string. So values stand for the objects, and an
  event handler is a function from the state before to the state after.
\<close>

text \<open>\<open>interface Exercise\<close> of exercise-item.tsx.\<close>

record Exercise =
  e_id :: js_string
  e_name :: js_string
  sets :: int
  reps :: int
  weight :: real

text \<open>\<open>interface Workout\<close> and \<open>interface WorkoutSession\<close> of workout-manager.tsx.\<close>

record Workout =
  w_id :: js_string
  w_name :: js_string
  w_exercises :: "Exercise list"
  createdAt :: Date

record WorkoutSession =
  s_id :: js_string
  s_workoutId :: js_string
  s_workoutName :: js_string
  s_exercises :: "Exercise list"
  completedAt :: Date
  totalSets :: int
  totalVolume :: real

text \<open>
  The same objects as \<open>JSON.stringify\<close> writes them and \<open>JSON.parse\<close> reads them: every
  field as it is, the dates as ISO strings. An \<open>Exercise\<close> holds no date and is its own
  JSON form.
\<close>

record WorkoutJSON =
  wj_id :: js_string
  wj_name :: js_string
  wj_exercises :: "Exercise list"
  wj_createdAt :: ISOString

record SessionJSON =
  sj_id :: js_string
  sj_workoutId :: js_string
  sj_workoutName :: js_string
  sj_exercises :: "Exercise list"
  sj_completedAt :: ISOString
  sj_totalSets :: int
  sj_totalVolume :: real

definition stringify_Workout :: "Workout \<Rightarrow> WorkoutJSON" where
  "stringify_Workout w =
     \<lparr>wj_id = w_id w, wj_name = w_name w, wj_exercises = w_exercises w,
      wj_createdAt = toJSON (createdAt w)\<rparr>"

definition stringify_Session :: "WorkoutSession \<Rightarrow> SessionJSON" where
  "stringify_Session s =
     \<lparr>sj_id = s_id s, sj_workoutId = s_workoutId s, sj_workoutName = s_workoutName s,
      sj_exercises = s_exercises s, sj_completedAt = toJSON (completedAt s),
      sj_totalSets = totalSets s, sj_totalVolume = totalVolume s\<rparr>"

section \<open>The key-value store and the other effects\<close>

text \<open>
  AsyncStorage maps a key to a string. The three keys of the application are the three
  fields of the record: \<open>workouts_item\<close> is the entry of \<open>STORAGE_KEY\<close>
  (@PumpIt:workouts), \<open>selected_item\<close> that of \<open>SELECTED_WORKOUT_KEY\<close>
  (@PumpIt:selectedWorkout) and \<open>sessions_item\<close> that of \<open>PROGRESS_KEY\<close>
  (@PumpIt:workoutSessions). \<open>None\<close> is an absent key (\<open>getItem\<close> gives null). The
  selected id is stored as it is. The two collections are stored as JSON text: \<open>Json v\<close>
  is the text that \<open>JSON.stringify\<close> gives for \<open>v\<close>, \<open>EmptyText\<close> the empty string
  (falsy) and \<open>NotJSON\<close> a text that is not JSON, on which \<open>JSON.parse\<close> throws a
  SyntaxError. A text that is JSON of another shape (a string, an object, an array of
  other things) parses without throwing and the handlers go on with it; the application
  never writes one, the type has no value for it, and nothing is said about it here.
\<close>

datatype 'a item = Json 'a | EmptyText | NotJSON

record AsyncStorage =
  workouts_item :: "WorkoutJSON list item option"
  selected_item :: "js_string option"
  sessions_item :: "SessionJSON list item option"

text \<open>
  The world outside the components: the store, the outcome of the coming store calls
  (\<open>True\<close>: the promise rejects; an empty list: every call resolves), the dialogs shown
  by \<open>Alert.alert\<close> (title and message) and the lines of \<open>console.error\<close>.
\<close>

record Env =
  storage :: AsyncStorage
  faults :: "bool list"
  alerts :: "(js_string \<times> js_string) list"
  console :: "js_string list"

datatype 'a promise = Resolved 'a | Rejected

definition getItem :: "(AsyncStorage \<Rightarrow> 'a) \<Rightarrow> Env \<Rightarrow> 'a promise \<times> Env" where
  "getItem key e =
     (case faults e of
        [] \<Rightarrow> (Resolved (key (storage e)), e)
      | f # fs \<Rightarrow> (if f then Rejected else Resolved (key (storage e)), e\<lparr>faults := fs\<rparr>))"

definition setItem ::
  "(('a option \<Rightarrow> 'a option) \<Rightarrow> AsyncStorage \<Rightarrow> AsyncStorage) \<Rightarrow> 'a \<Rightarrow> Env \<Rightarrow> unit promise \<times> Env" where
  "setItem key v e =
     (case faults e of
        [] \<Rightarrow> (Resolved (), e\<lparr>storage := key (\<lambda>_. Some v) (storage e)\<rparr>)
      | f # fs \<Rightarrow>
          (if f then (Rejected, e\<lparr>faults := fs\<rparr>)
           else (Resolved (), e\<lparr>storage := key (\<lambda>_. Some v) (storage e), faults := fs\<rparr>)))"

definition Alert_alert :: "js_string \<Rightarrow> js_string \<Rightarrow> Env \<Rightarrow> Env" where
  "Alert_alert title message e = e\<lparr>alerts := alerts e @ [(title, message)]\<rparr>"

definition console_error :: "js_string \<Rightarrow> Env \<Rightarrow> Env" where
  "console_error line e = e\<lparr>console := console e @ [line]\<rparr>"

text \<open>Truthiness of what \<open>getItem\<close> resolves to: null and the empty string are falsy.\<close>

fun truthy_item :: "'a item option \<Rightarrow> bool" where
  "truthy_item None = False"
| "truthy_item (Some EmptyText) = False"
| "truthy_item (Some _) = True"

text \<open>
  \<open>JSON.parse\<close> of what \<open>getItem\<close> resolved to; \<open>None\<close> when it throws. The
  handlers call it on a truthy entry only; \<open>JSON.parse(null)\<close> gives null, on which the
  step that follows in each handler (\<open>map\<close>, the spread) throws, and the empty string
  is not JSON.
\<close>

fun JSON_parse :: "'a item option \<Rightarrow> 'a option" where
  "JSON_parse (Some (Json v)) = Some v"
| "JSON_parse (Some NotJSON) = None"
| "JSON_parse (Some EmptyText) = None"
| "JSON_parse None = None"

text \<open>The button pressed in a confirmation dialog.\<close>

datatype button = Cancel | Delete

section \<open>The workout manager (workout-manager.tsx)\<close>

text \<open>
  \<open>DEFAULT_WORKOUTS\<close>. Its two \<open>new Date()\<close> are read once, when the module is
  evaluated; they are the parameters.
\<close>

definition DEFAULT_WORKOUTS :: "Date \<Rightarrow> Date \<Rightarrow> Workout list" where
  "DEFAULT_WORKOUTS d1 d2 =
     [\<lparr>w_id = js ''1'', w_name = js ''Push Day'',
       w_exercises =
         [\<lparr>e_id = js ''1'', e_name = js ''Bench Press'', sets = 3, reps = 10, weight = 60\<rparr>,
          \<lparr>e_id = js ''2'', e_name = js ''Shoulder Press'', sets = 3, reps = 8, weight = 30\<rparr>],
       createdAt = d1\<rparr>,
      \<lparr>w_id = js ''2'', w_name = js ''Pull Day'',
       w_exercises =
         [\<lparr>e_id = js ''3'', e_name = js ''Pull-ups'', sets = 4, reps = 8, weight = 0\<rparr>,
          \<lparr>e_id = js ''4'', e_name = js ''Rows'', sets = 3, reps = 10, weight = 40\<rparr>],
       createdAt = d2\<rparr>]"

text \<open>The state hooks of the component \<open>WorkoutManager\<close>.\<close>

record WorkoutManager =
  workouts :: "Workout list"
  selectedWorkoutId :: js_string
  showCreateModal :: bool
  newWorkoutName :: js_string
  isLoading :: bool

text \<open>The state at the first render.\<close>

definition WorkoutManager_init :: WorkoutManager where
  "WorkoutManager_init =
     \<lparr>workouts = [], selectedWorkoutId = [], showCreateModal = False,
      newWorkoutName = [], isLoading = True\<rparr>"

definition selectedWorkout :: "WorkoutManager \<Rightarrow> Workout option" where
  "selectedWorkout m = find (\<lambda>w. w_id w = selectedWorkoutId m) (workouts m)"

text \<open>\<open>ws[0]?.id || ''\<close>.\<close>

fun first_id :: "Workout list \<Rightarrow> js_string" where
  "first_id [] = []"
| "first_id (w # _) = (if w_id w \<noteq> [] then w_id w else [])"

definition saveWorkouts :: "Workout list \<Rightarrow> Env \<Rightarrow> Env" where
  "saveWorkouts workoutsToSave e =
     (case setItem workouts_item_update (Json (map stringify_Workout workoutsToSave)) e of
        (Resolved _, e') \<Rightarrow> e'
      | (Rejected, e') \<Rightarrow> console_error (js ''Error saving workouts:'') e')"

definition saveSelectedWorkout :: "js_string \<Rightarrow> Env \<Rightarrow> Env" where
  "saveSelectedWorkout workoutId e =
     (case setItem selected_item_update workoutId e of
        (Resolved _, e') \<Rightarrow> e'
      | (Rejected, e') \<Rightarrow> console_error (js ''Error saving selected workout:'') e')"

text \<open>
  \<open>loadWorkouts\<close>, the effect run on mount. Both reads come first; a rejected read and a
  throwing \<open>JSON.parse\<close> end in the \<open>catch\<close> block, before any state is set.
\<close>

definition loadWorkouts_catch ::
  "Date \<Rightarrow> Date \<Rightarrow> WorkoutManager \<Rightarrow> Env \<Rightarrow> WorkoutManager \<times> Env" where
  "loadWorkouts_catch d1 d2 m e =
     (m\<lparr>workouts := DEFAULT_WORKOUTS d1 d2,
        selectedWorkoutId := first_id (DEFAULT_WORKOUTS d1 d2),
        isLoading := False\<rparr>,
      console_error (js ''Error loading workouts:'') e)"

definition loadWorkouts ::
  "Date \<Rightarrow> Date \<Rightarrow> WorkoutManager \<times> Env \<Rightarrow> WorkoutManager \<times> Env" where
  "loadWorkouts d1 d2 = (\<lambda>(m, e).
     case getItem workouts_item e of
       (Rejected, e1) \<Rightarrow> loadWorkouts_catch d1 d2 m e1
     | (Resolved storedWorkouts, e1) \<Rightarrow>
        (case getItem selected_item e1 of
           (Rejected, e2) \<Rightarrow> loadWorkouts_catch d1 d2 m e2
         | (Resolved storedSelectedId, e2) \<Rightarrow>
            if truthy_item storedWorkouts then
              (case JSON_parse storedWorkouts of
                 None \<Rightarrow> loadWorkouts_catch d1 d2 m e2
               | Some parsed \<Rightarrow>
                  let parsedWorkouts =
                        map (\<lambda>w. \<lparr>w_id = wj_id w, w_name = wj_name w,
                                  w_exercises = wj_exercises w,
                                  createdAt = new_Date (wj_createdAt w)\<rparr>) parsed
                  in (m\<lparr>workouts := parsedWorkouts,
                        selectedWorkoutId :=
                          (case storedSelectedId of
                             None \<Rightarrow> first_id parsedWorkouts
                           | Some storedId \<Rightarrow>
                               if storedId \<noteq> []
                                  \<and> find (\<lambda>w. w_id w = storedId) parsedWorkouts \<noteq> None
                               then storedId else first_id parsedWorkouts),
                        isLoading := False\<rparr>,
                      e2))
            else
              (m\<lparr>workouts := DEFAULT_WORKOUTS d1 d2,
                 selectedWorkoutId := first_id (DEFAULT_WORKOUTS d1 d2),
                 isLoading := False\<rparr>,
               saveWorkouts (DEFAULT_WORKOUTS d1 d2) e2)))"

text \<open>
  \<open>saveWorkoutSession\<close>. \<open>idNow\<close> is the reading of \<open>Date.now()\<close>, \<open>completedNow\<close>
  that of \<open>new Date()\<close>. The sessions read from the store are not converted: they are
  written back as they were read.
\<close>

definition saveWorkoutSession_catch :: "Env \<Rightarrow> Env" where
  "saveWorkoutSession_catch e =
     Alert_alert (js ''Error'') (js ''Failed to save workout progress'')
       (console_error (js ''Error saving workout session:'') e)"

definition newSession :: "int \<Rightarrow> Date \<Rightarrow> Workout \<Rightarrow> WorkoutSession" where
  "newSession idNow completedNow workout =
     \<lparr>s_id = toString idNow,
      s_workoutId = w_id workout,
      s_workoutName = w_name workout,
      s_exercises = w_exercises workout,
      completedAt = completedNow,
      totalSets = foldl (\<lambda>total ex. total + sets ex) 0 (w_exercises workout),
      totalVolume =
        foldl (\<lambda>total ex. total + (of_int (sets ex) * weight ex)) 0 (w_exercises workout)\<rparr>"

definition saveWorkoutSession :: "int \<Rightarrow> Date \<Rightarrow> Workout \<Rightarrow> Env \<Rightarrow> Env" where
  "saveWorkoutSession idNow completedNow workout e =
     (case getItem sessions_item e of
        (Rejected, e1) \<Rightarrow> saveWorkoutSession_catch e1
      | (Resolved existingSessions, e1) \<Rightarrow>
         (case (if truthy_item existingSessions then JSON_parse existingSessions else Some [])
          of
            None \<Rightarrow> saveWorkoutSession_catch e1
          | Some sessions \<Rightarrow>
             let updatedSessions =
                   stringify_Session (newSession idNow completedNow workout) # sessions
             in (case setItem sessions_item_update (Json updatedSessions) e1 of
                   (Rejected, e2) \<Rightarrow> saveWorkoutSession_catch e2
                 | (Resolved _, e2) \<Rightarrow>
                     Alert_alert (js ''Workout Complete!'')
                       (js ''Great job finishing '' @ w_name workout @ js ''!'') e2)))"

text \<open>
  \<open>createNewWorkout\<close>, with the readings of \<open>Date.now()\<close> and of \<open>new Date()\<close>.
\<close>

definition createNewWorkout ::
  "int \<Rightarrow> Date \<Rightarrow> WorkoutManager \<times> Env \<Rightarrow> WorkoutManager \<times> Env" where
  "createNewWorkout idNow createdNow = (\<lambda>(m, e).
     if trim (newWorkoutName m) = [] then
       (m, Alert_alert (js ''Error'') (js ''Please enter a workout name'') e)
     else
       let newWorkout = \<lparr>w_id = toString idNow, w_name = trim (newWorkoutName m),
                         w_exercises = [], createdAt = createdNow\<rparr>;
           updatedWorkouts = workouts m @ [newWorkout]
       in (m\<lparr>workouts := updatedWorkouts, selectedWorkoutId := w_id newWorkout,
             newWorkoutName := [], showCreateModal := False\<rparr>,
           saveSelectedWorkout (w_id newWorkout) (saveWorkouts updatedWorkouts e)))"

text \<open>
  \<open>deleteWorkout\<close>: the guard, then the confirmation dialog; \<open>pressed\<close> is the button
  chosen there, and \<open>Delete\<close> runs its \<open>onPress\<close>.
\<close>

definition deleteWorkout ::
  "js_string \<Rightarrow> button \<Rightarrow> WorkoutManager \<times> Env \<Rightarrow> WorkoutManager \<times> Env" where
  "deleteWorkout workoutId pressed = (\<lambda>(m, e).
     if length (workouts m) \<le> 1 then
       (m, Alert_alert (js ''Error'') (js ''You must have at least one workout'') e)
     else
       let e0 = Alert_alert (js ''Delete Workout'')
                  (js ''Are you sure you want to delete this workout?'') e
       in case pressed of
            Cancel \<Rightarrow> (m, e0)
          | Delete \<Rightarrow>
             let updatedWorkouts = filter (\<lambda>w. w_id w \<noteq> workoutId) (workouts m);
                 newSelectedId =
                   (if selectedWorkoutId m = workoutId then first_id updatedWorkouts
                    else selectedWorkoutId m);
                 e1 = saveWorkouts updatedWorkouts e0
             in (m\<lparr>workouts := updatedWorkouts, selectedWorkoutId := newSelectedId\<rparr>,
                 if newSelectedId \<noteq> selectedWorkoutId m
                 then saveSelectedWorkout newSelectedId e1 else e1))"

definition updateWorkoutExercises ::
  "Exercise list \<Rightarrow> WorkoutManager \<times> Env \<Rightarrow> WorkoutManager \<times> Env" where
  "updateWorkoutExercises exercises = (\<lambda>(m, e).
     let updatedWorkouts =
           map (\<lambda>workout. if w_id workout = selectedWorkoutId m
                           then workout\<lparr>w_exercises := exercises\<rparr> else workout)
               (workouts m)
     in (m\<lparr>workouts := updatedWorkouts\<rparr>, saveWorkouts updatedWorkouts e))"

definition selectWorkout ::
  "js_string \<Rightarrow> WorkoutManager \<times> Env \<Rightarrow> WorkoutManager \<times> Env" where
  "selectWorkout workoutId = (\<lambda>(m, e).
     (m\<lparr>selectedWorkoutId := workoutId\<rparr>, saveSelectedWorkout workoutId e))"

section \<open>The exercise list (exercise-list.tsx)\<close>

text \<open>
  The state hooks of \<open>ExerciseList\<close>. Each operation returns the new state with the
  sequence it hands to \<open>onUpdateExercises\<close>, which the workout manager binds to
  \<open>updateWorkoutExercises\<close>.
\<close>

record ExerciseList =
  exercises :: "Exercise list"
  newlyAddedId :: "js_string option"

definition addNewExercise :: "int \<Rightarrow> ExerciseList \<Rightarrow> ExerciseList \<times> Exercise list" where
  "addNewExercise idNow l =
     (let newExercise = \<lparr>e_id = toString idNow, e_name = js ''New Exercise'',
                          sets = 3, reps = 10, weight = 0\<rparr>;
          updatedExercises = exercises l @ [newExercise]
      in (l\<lparr>exercises := updatedExercises, newlyAddedId := Some (e_id newExercise)\<rparr>,
          updatedExercises))"

text \<open>The \<open>isEditing\<close> property that \<open>renderExerciseItem\<close> gives to an item.\<close>

definition isEditing :: "ExerciseList \<Rightarrow> Exercise \<Rightarrow> bool" where
  "isEditing l item \<longleftrightarrow> newlyAddedId l = Some (e_id item)"

section \<open>The progress list (progress-list.tsx)\<close>

record ProgressList =
  sessions :: "WorkoutSession list"
  pl_isLoading :: bool

definition parse_Session :: "SessionJSON \<Rightarrow> WorkoutSession" where
  "parse_Session session =
     \<lparr>s_id = sj_id session, s_workoutId = sj_workoutId session,
      s_workoutName = sj_workoutName session, s_exercises = sj_exercises session,
      completedAt = new_Date (sj_completedAt session),
      totalSets = sj_totalSets session, totalVolume = sj_totalVolume session\<rparr>"

definition loadSessions :: "ProgressList \<times> Env \<Rightarrow> ProgressList \<times> Env" where
  "loadSessions = (\<lambda>(p, e).
     case getItem sessions_item e of
       (Rejected, e1) \<Rightarrow>
         (p\<lparr>pl_isLoading := False\<rparr>, console_error (js ''Error loading workout sessions:'') e1)
     | (Resolved storedSessions, e1) \<Rightarrow>
        if truthy_item storedSessions then
          (case JSON_parse storedSessions of
             None \<Rightarrow>
               (p\<lparr>pl_isLoading := False\<rparr>,
                console_error (js ''Error loading workout sessions:'') e1)
           | Some parsed \<Rightarrow>
               (p\<lparr>sessions := map parse_Session parsed, pl_isLoading := False\<rparr>, e1))
        else (p\<lparr>pl_isLoading := False\<rparr>, e1))"

definition deleteSession ::
  "js_string \<Rightarrow> button \<Rightarrow> ProgressList \<times> Env \<Rightarrow> ProgressList \<times> Env" where
  "deleteSession sessionId pressed = (\<lambda>(p, e).
     let e0 = Alert_alert (js ''Delete Workout'')
                (js ''Are you sure you want to remove this workout from your history?'') e
     in case pressed of
          Cancel \<Rightarrow> (p, e0)
        | Delete \<Rightarrow>
           let updatedSessions = filter (\<lambda>session. s_id session \<noteq> sessionId) (sessions p)
           in (p\<lparr>sessions := updatedSessions\<rparr>,
               case setItem sessions_item_update
                      (Json (map stringify_Session updatedSessions)) e0 of
                 (Resolved _, e1) \<Rightarrow> e1
               | (Rejected, e1) \<Rightarrow>
                   Alert_alert (js ''Error'') (js ''Failed to delete workout session'')
                     (console_error (js ''Error deleting workout session:'') e1)))"

section \<open>Vocabulary of the properties\<close>

text \<open>
  The session history as the next reader of the store finds it
  (\<open>existingSessions ? JSON.parse(existingSessions) : []\<close>): empty when the key is
  absent, \<open>None\<close> when the text does not parse.
\<close>

definition readHistory :: "Env \<Rightarrow> SessionJSON list option" where
  "readHistory e =
     (if truthy_item (sessions_item (storage e)) then JSON_parse (sessions_item (storage e))
      else Some [])"

text \<open>A run of completions, in the order of the calls, each with its two clock readings.\<close>

fun complete_all :: "(int \<times> Date \<times> Workout) list \<Rightarrow> Env \<Rightarrow> Env" where
  "complete_all [] e = e"
| "complete_all ((idNow, completedNow, workout) # calls) e =
     complete_all calls (saveWorkoutSession idNow completedNow workout e)"

definition session_of_call :: "int \<times> Date \<times> Workout \<Rightarrow> SessionJSON" where
  "session_of_call = (\<lambda>(idNow, completedNow, workout).
     stringify_Session (newSession idNow completedNow workout))"

definition completion_time :: "SessionJSON \<Rightarrow> int" where
  "completion_time s = getTime (new_Date (sj_completedAt s))"

definition newest_first :: "SessionJSON list \<Rightarrow> bool" where
  "newest_first h = sorted_wrt (\<lambda>a b. completion_time a \<ge> completion_time b) h"

text \<open>The setter of the name field of the creation dialog (\<open>onChangeText\<close>).\<close>

definition setNewWorkoutName ::
  "js_string \<Rightarrow> WorkoutManager \<times> Env \<Rightarrow> WorkoutManager \<times> Env" where
  "setNewWorkoutName typed = (\<lambda>(m, e). (m\<lparr>newWorkoutName := typed\<rparr>, e))"

text \<open>
  What a user can do to the workout manager, one event at a time: type a name in the
  creation dialog, press its button, long-press a tab and answer the dialog, press a tab,
  and edit the exercises of the selected workout.
\<close>

datatype action =
    TypeName js_string
  | CreateWorkout int Date
  | DeleteWorkout js_string button
  | SelectWorkout js_string
  | UpdateExercises "Exercise list"

fun perform :: "action \<Rightarrow> WorkoutManager \<times> Env \<Rightarrow> WorkoutManager \<times> Env" where
  "perform (TypeName typed) st = setNewWorkoutName typed st"
| "perform (CreateWorkout idNow createdNow) st = createNewWorkout idNow createdNow st"
| "perform (DeleteWorkout workoutId pressed) st = deleteWorkout workoutId pressed st"
| "perform (SelectWorkout workoutId) st = selectWorkout workoutId st"
| "perform (UpdateExercises exs) st = updateWorkoutExercises exs st"

fun run :: "action list \<Rightarrow> WorkoutManager \<times> Env \<Rightarrow> WorkoutManager \<times> Env" where
  "run [] st = st"
| "run (a # as) st = run as (perform a st)"

text \<open>Every creation of the run reads a clock whose decimal string is no id in use.\<close>

fun fresh_ids :: "action list \<Rightarrow> WorkoutManager \<times> Env \<Rightarrow> bool" where
  "fresh_ids [] st = True"
| "fresh_ids (CreateWorkout idNow createdNow # as) st =
     (toString idNow \<notin> w_id ` set (workouts (fst st))
      \<and> fresh_ids as (perform (CreateWorkout idNow createdNow) st))"
| "fresh_ids (a # as) st = fresh_ids as (perform a st)"

subsection \<open>Sample states\<close>

text \<open>A first start: nothing stored, every store call resolves.\<close>

definition no_store :: Env where
  "no_store =
     \<lparr>storage = \<lparr>workouts_item = None, selected_item = None, sessions_item = None\<rparr>,
      faults = [], alerts = [], console = []\<rparr>"

definition leg_day :: Workout where
  "leg_day =
     \<lparr>w_id = js ''7'', w_name = js ''Legs'',
      w_exercises =
        [\<lparr>e_id = js ''a'', e_name = js ''Squat'', sets = 3, reps = 5, weight = 60\<rparr>,
         \<lparr>e_id = js ''b'', e_name = js ''Plank'', sets = 4, reps = 1, weight = 0\<rparr>],
      createdAt = Date 5\<rparr>"

text \<open>The workout manager after its first load, and the progress list after one completion.\<close>

definition seeded :: "WorkoutManager \<times> Env" where
  "seeded = loadWorkouts (Date 1) (Date 2) (WorkoutManager_init, no_store)"

definition one_session :: Env where
  "one_session = saveWorkoutSession 9 (Date 9) leg_day no_store"

definition viewer :: "ProgressList \<times> Env" where
  "viewer = loadSessions (\<lparr>sessions = [], pl_isLoading = True\<rparr>, one_session)"

text \<open>
  After the first load: two workouts are created while \<open>Date.now()\<close> reads the same
  millisecond, then the workouts are deleted one id after the other.
\<close>

definition same_millisecond :: "action list" where
  "same_millisecond =
     [TypeName (js ''A''), CreateWorkout 1700000000000 (Date 1700000000000),
      TypeName (js ''B''), CreateWorkout 1700000000000 (Date 1700000000000),
      DeleteWorkout (js ''1'') Delete, DeleteWorkout (js ''2'') Delete]"

definition curl :: Exercise where
  "curl = \<lparr>e_id = js ''c'', e_name = js ''Curl'', sets = 3, reps = 12, weight = 10\<rparr>"

definition added_twice :: ExerciseList where
  "added_twice =
     fst (addNewExercise 1700000000000
       (fst (addNewExercise 1700000000000 \<lparr>exercises = [], newlyAddedId = None\<rparr>)))"

section \<open>Auxiliary facts\<close>

subsection \<open>Store calls that resolve\<close>

lemma getItem_resolves: "faults e = [] \<Longrightarrow> getItem key e = (Resolved (key (storage e)), e)"
  by (simp add: getItem_def)

lemma setItem_resolves:
  "faults e = [] \<Longrightarrow>
   setItem key v e = (Resolved (), e\<lparr>storage := key (\<lambda>_. Some v) (storage e)\<rparr>)"
  by (simp add: setItem_def)

lemma saveWorkouts_resolves:
  "faults e = [] \<Longrightarrow>
   saveWorkouts ws e =
     e\<lparr>storage := (storage e)\<lparr>workouts_item := Some (Json (map stringify_Workout ws))\<rparr>\<rparr>"
  by (simp add: saveWorkouts_def setItem_resolves)

lemma saveSelectedWorkout_resolves:
  "faults e = [] \<Longrightarrow>
   saveSelectedWorkout i e = e\<lparr>storage := (storage e)\<lparr>selected_item := Some i\<rparr>\<rparr>"
  by (simp add: saveSelectedWorkout_def setItem_resolves)

lemma saveWorkoutSession_resolves:
  assumes "faults e = []" and "readHistory e = Some old"
  shows "saveWorkoutSession idNow now workout e =
         Alert_alert (js ''Workout Complete!'')
           (js ''Great job finishing '' @ w_name workout @ js ''!'')
           (e\<lparr>storage := (storage e)\<lparr>sessions_item :=
                 Some (Json (stringify_Session (newSession idNow now workout) # old))\<rparr>\<rparr>)"
  using assms
  by (simp add: saveWorkoutSession_def readHistory_def getItem_resolves setItem_resolves
           split: if_splits)

lemma faults_saveWorkoutSession:
  assumes "faults e = []" and "readHistory e = Some old"
  shows "faults (saveWorkoutSession idNow now workout e) = []"
  by (simp add: saveWorkoutSession_resolves [OF assms] Alert_alert_def assms(1))

lemma readHistory_saveWorkoutSession:
  assumes "faults e = []" and "readHistory e = Some old"
  shows "readHistory (saveWorkoutSession idNow now workout e)
           = Some (stringify_Session (newSession idNow now workout) # old)"
  by (simp add: saveWorkoutSession_resolves [OF assms] readHistory_def Alert_alert_def)

subsection \<open>What the workout manager never writes\<close>

lemma sessions_item_saveWorkouts:
  "sessions_item (storage (saveWorkouts ws e)) = sessions_item (storage e)"
  by (simp add: saveWorkouts_def setItem_def console_error_def split: list.splits)

lemma readHistory_updateWorkoutExercises:
  "readHistory (snd (updateWorkoutExercises exs (m, e))) = readHistory e"
  by (simp add: updateWorkoutExercises_def Let_def readHistory_def sessions_item_saveWorkouts)

subsection \<open>Folds, trimming, the first id\<close>

lemma foldl_add_sum_list:
  fixes f :: "'a \<Rightarrow> 'b::comm_monoid_add"
  shows "foldl (\<lambda>total x. total + f x) a xs = a + sum_list (map f xs)"
  by (induction xs arbitrary: a) (simp_all add: add.assoc)

lemma dropWhile_all_iff:
  "(\<forall>x \<in> set (dropWhile P xs). P x) \<longleftrightarrow> (\<forall>x \<in> set xs. P x)"
  by (induction xs) auto

lemma trim_empty_iff: "trim s = [] \<longleftrightarrow> (\<forall>c \<in> set s. isWhiteSpace c)"
  by (simp add: trim_def dropWhile_all_iff)

lemma first_id_eq: "first_id ws = (case ws of [] \<Rightarrow> [] | w # _ \<Rightarrow> w_id w)"
  by (cases ws) auto

subsection \<open>JSON round trips\<close>

lemma parse_stringify_Workout:
  "\<lparr>w_id = wj_id (stringify_Workout w), w_name = wj_name (stringify_Workout w),
    w_exercises = wj_exercises (stringify_Workout w),
    createdAt = new_Date (wj_createdAt (stringify_Workout w))\<rparr> = w"
  by (simp add: stringify_Workout_def toJSON_def new_Date_def)

lemma stringify_parse_Session: "map (stringify_Session \<circ> parse_Session) h = h"
  by (induction h)
     (simp_all add: stringify_Session_def parse_Session_def toJSON_def new_Date_def)

subsection \<open>Runs of completions\<close>

lemma readHistory_complete_all:
  "faults e = [] \<Longrightarrow> readHistory e = Some old \<Longrightarrow>
   readHistory (complete_all calls e) = Some (rev (map session_of_call calls) @ old)"
proof (induction calls arbitrary: e old)
  case Nil
  then show ?case by simp
next
  case (Cons c calls)
  obtain idNow now workout where c: "c = (idNow, now, workout)"
    by (cases c) auto
  have "readHistory (complete_all calls (saveWorkoutSession idNow now workout e))
          = Some (rev (map session_of_call calls)
                  @ stringify_Session (newSession idNow now workout) # old)"
    using Cons.prems
    by (intro Cons.IH faults_saveWorkoutSession readHistory_saveWorkoutSession)
  then show ?case
    by (simp add: c session_of_call_def)
qed

lemma completion_time_session_of_call:
  "completion_time (session_of_call (idNow, now, workout)) = getTime now"
  by (simp add: completion_time_def session_of_call_def stringify_Session_def newSession_def
        toJSON_def new_Date_def)

lemma map_completion_time_calls:
  "map completion_time (map session_of_call calls)
     = map (\<lambda>(idNow, now, workout). getTime now) calls"
  by (induction calls) (auto simp: completion_time_session_of_call)

lemma newest_first_rev_calls:
  assumes "sorted (map (\<lambda>(idNow, now, workout). getTime now) calls)"
  shows "newest_first (rev (map session_of_call calls))"
proof -
  have "sorted_wrt (\<lambda>a b. completion_time a \<le> completion_time b) (map session_of_call calls)"
    using assms unfolding map_completion_time_calls [symmetric]
    by (simp add: sorted_wrt_map)
  then show ?thesis
    unfolding newest_first_def by (simp add: sorted_wrt_rev)
qed

subsection \<open>The sample states\<close>

lemma seeded_eq:
  "seeded =
     (\<lparr>workouts = DEFAULT_WORKOUTS (Date 1) (Date 2), selectedWorkoutId = js ''1'',
       showCreateModal = False, newWorkoutName = [], isLoading = False\<rparr>,
      no_store\<lparr>storage := (storage no_store)\<lparr>workouts_item :=
         Some (Json (map stringify_Workout (DEFAULT_WORKOUTS (Date 1) (Date 2))))\<rparr>\<rparr>)"
  by (simp add: seeded_def loadWorkouts_def getItem_def no_store_def saveWorkouts_def setItem_def
        WorkoutManager_init_def)
     (simp add: DEFAULT_WORKOUTS_def js_def)

lemma viewer_eq:
  "viewer = (\<lparr>sessions = [newSession 9 (Date 9) leg_day], pl_isLoading = False\<rparr>, one_session)"
  "faults one_session = []"
  "readHistory one_session = Some [stringify_Session (newSession 9 (Date 9) leg_day)]"
proof -
  have h1: "faults no_store = []" and h2: "readHistory no_store = Some []"
    by (simp_all add: no_store_def readHistory_def)
  show f: "faults one_session = []"
    unfolding one_session_def by (rule faults_saveWorkoutSession [OF h1 h2])
  show r: "readHistory one_session = Some [stringify_Session (newSession 9 (Date 9) leg_day)]"
    unfolding one_session_def by (rule readHistory_saveWorkoutSession [OF h1 h2])
  have i: "sessions_item (storage one_session)
             = Some (Json [stringify_Session (newSession 9 (Date 9) leg_day)])"
    by (simp add: one_session_def saveWorkoutSession_resolves [OF h1 h2] Alert_alert_def)
  show "viewer = (\<lparr>sessions = [newSession 9 (Date 9) leg_day], pl_isLoading = False\<rparr>, one_session)"
    by (simp add: viewer_def loadSessions_def getItem_resolves [OF f] i parse_Session_def
          stringify_Session_def toJSON_def new_Date_def newSession_def)
qed

lemma run_same_millisecond:
  "map w_id (workouts (fst (run same_millisecond seeded)))
     = [toString 1700000000000, toString 1700000000000]"
  "map w_name (workouts (fst (run same_millisecond seeded))) = [js ''A'', js ''B'']"
  by (simp_all add: same_millisecond_def seeded_eq setNewWorkoutName_def createNewWorkout_def
        deleteWorkout_def Let_def trim_def js_def isWhiteSpace_def DEFAULT_WORKOUTS_def
        toString_def digits.simps)

subsection \<open>Deleting workouts and adding exercises, where ids are distinct\<close>

lemma deleteWorkout_refused:
  "length (workouts m) \<le> 1 \<Longrightarrow>
   deleteWorkout workoutId pressed (m, e)
     = (m, Alert_alert (js ''Error'') (js ''You must have at least one workout'') e)"
  by (simp add: deleteWorkout_def)

lemma filter_other_id_nonempty:
  "distinct (map w_id ws) \<Longrightarrow> 2 \<le> length ws \<Longrightarrow> filter (\<lambda>w. w_id w \<noteq> i) ws \<noteq> []"
proof (cases ws)
  case Nil
  then show "2 \<le> length ws \<Longrightarrow> ?thesis" by simp
next
  case (Cons a as)
  assume d: "distinct (map w_id ws)" and l: "2 \<le> length ws"
  from l Cons obtain b bs where as: "as = b # bs"
    by (cases as) auto
  from d Cons as have "w_id a \<noteq> w_id b" by auto
  then have "w_id a \<noteq> i \<or> w_id b \<noteq> i" by auto
  then show ?thesis
    by (auto simp: Cons as)
qed

lemma deleteWorkout_keeps_one:
  assumes "distinct (map w_id (workouts m))" and "workouts m \<noteq> []"
  shows "workouts (fst (deleteWorkout workoutId pressed (m, e))) \<noteq> []"
proof (cases "length (workouts m) \<le> 1")
  case True
  then show ?thesis
    using assms(2) by (simp add: deleteWorkout_refused)
next
  case False
  then have "filter (\<lambda>w. w_id w \<noteq> workoutId) (workouts m) \<noteq> []"
    using assms(1) by (intro filter_other_id_nonempty) auto
  then show ?thesis
    using False assms(2) by (cases pressed) (simp_all add: deleteWorkout_def Let_def)
qed

lemma addNewExercise_appends:
  "exercises (fst (addNewExercise idNow l))
     = exercises l @ [\<lparr>e_id = toString idNow, e_name = js ''New Exercise'',
                       sets = 3, reps = 10, weight = 0\<rparr>]"
  "snd (addNewExercise idNow l) = exercises (fst (addNewExercise idNow l))"
  "newlyAddedId (fst (addNewExercise idNow l)) = Some (toString idNow)"
  "isEditing (fst (addNewExercise idNow l)) (last (exercises (fst (addNewExercise idNow l))))"
  by (simp_all add: addNewExercise_def Let_def isEditing_def)

lemma perform_keeps_collection:
  assumes "workouts (fst st) \<noteq> []" and "distinct (map w_id (workouts (fst st)))"
    and "fresh_ids [a] st"
  shows "workouts (fst (perform a st)) \<noteq> []
       \<and> distinct (map w_id (workouts (fst (perform a st))))"
proof -
  obtain m e where st: "st = (m, e)"
    by (cases st)
  show ?thesis
  proof (cases a)
    case (TypeName typed)
    then show ?thesis
      using assms by (simp add: st setNewWorkoutName_def)
  next
    case (CreateWorkout idNow createdNow)
    then show ?thesis
      using assms by (auto simp: st createNewWorkout_def Let_def)
  next
    case (DeleteWorkout workoutId pressed)
    have "workouts (fst (deleteWorkout workoutId pressed (m, e))) \<noteq> []"
      using assms(1,2) by (intro deleteWorkout_keeps_one) (simp_all add: st)
    moreover have "distinct (map w_id (workouts (fst (deleteWorkout workoutId pressed (m, e)))))"
      using assms(2)
      by (cases pressed) (simp_all add: st deleteWorkout_def Let_def distinct_map_filter)
    ultimately show ?thesis
      by (simp add: DeleteWorkout st)
  next
    case (SelectWorkout workoutId)
    then show ?thesis
      using assms by (simp add: st selectWorkout_def)
  next
    case (UpdateExercises exs)
    have "w_id \<circ> (\<lambda>workout. if w_id workout = selectedWorkoutId m
                           then workout\<lparr>w_exercises := exs\<rparr> else workout) = w_id"
      by (auto simp: fun_eq_iff)
    then have k: "map w_id (workouts (fst (updateWorkoutExercises exs (m, e))))
                 = map w_id (workouts m)"
      by (simp add: updateWorkoutExercises_def Let_def)
    have "length (workouts (fst (updateWorkoutExercises exs (m, e)))) = length (workouts m)"
      by (rule map_eq_imp_length_eq [OF k])
    then have "workouts (fst (updateWorkoutExercises exs (m, e))) \<noteq> []"
      using assms(1) by (auto simp: st)
    moreover have "distinct (map w_id (workouts (fst (updateWorkoutExercises exs (m, e)))))"
      unfolding k using assms(2) by (simp add: st)
    ultimately show ?thesis
      by (simp add: UpdateExercises st)
  qed
qed

lemma fresh_ids_Cons: "fresh_ids (a # as) st \<longleftrightarrow> fresh_ids [a] st \<and> fresh_ids as (perform a st)"
  by (cases a) simp_all

lemma run_keeps_collection:
  "workouts (fst st) \<noteq> [] \<Longrightarrow> distinct (map w_id (workouts (fst st))) \<Longrightarrow> fresh_ids as st \<Longrightarrow>
   workouts (fst (run as st)) \<noteq> [] \<and> distinct (map w_id (workouts (fst (run as st))))"
proof (induction as arbitrary: st)
  case Nil
  then show ?case by simp
next
  case (Cons a as)
  from Cons.prems(3) have f: "fresh_ids [a] st" and r: "fresh_ids as (perform a st)"
    by (simp_all add: fresh_ids_Cons [of a as])
  have "workouts (fst (perform a st)) \<noteq> []
       \<and> distinct (map w_id (workouts (fst (perform a st))))"
    using Cons.prems(1,2) f by (rule perform_keeps_collection)
  then show ?case
    using Cons.IH [of "perform a st"] r by simp
qed

subsection \<open>Replacing exercises, by id\<close>

lemma updateWorkoutExercises_by_id:
  assumes "faults e = []"
  shows "length (workouts (fst (updateWorkoutExercises exs (m, e)))) = length (workouts m)
       \<and> (\<forall>i < length (workouts m).
            workouts (fst (updateWorkoutExercises exs (m, e))) ! i
              = (if w_id (workouts m ! i) = selectedWorkoutId m
                 then (workouts m ! i)\<lparr>w_exercises := exs\<rparr> else workouts m ! i))
       \<and> selectedWorkoutId (fst (updateWorkoutExercises exs (m, e))) = selectedWorkoutId m
       \<and> workouts_item (storage (snd (updateWorkoutExercises exs (m, e))))
           = Some (Json (map stringify_Workout
                (workouts (fst (updateWorkoutExercises exs (m, e))))))
       \<and> selected_item (storage (snd (updateWorkoutExercises exs (m, e))))
           = selected_item (storage e)"
  by (simp add: updateWorkoutExercises_def Let_def saveWorkouts_resolves assms)

lemma find_distinct_id:
  "distinct (map w_id ws) \<Longrightarrow> find (\<lambda>w. w_id w = i) ws = Some w \<Longrightarrow> v \<in> set ws \<Longrightarrow>
   w_id v = i \<longleftrightarrow> v = w"
proof -
  assume d: "distinct (map w_id ws)" and f: "find (\<lambda>w. w_id w = i) ws = Some w"
    and v: "v \<in> set ws"
  from f have w: "w \<in> set ws" "w_id w = i"
    by (auto simp: find_Some_iff)
  from d have "inj_on w_id (set ws)"
    by (simp add: distinct_map)
  with v w show ?thesis
    by (auto dest: inj_onD)
qed

lemma updateWorkoutExercises_selected_only:
  assumes "distinct (map w_id (workouts m))" and "selectedWorkout m = Some w"
    and "i < length (workouts m)"
  shows "workouts (fst (updateWorkoutExercises exs (m, e))) ! i
           = (if workouts m ! i = w then w\<lparr>w_exercises := exs\<rparr> else workouts m ! i)"
proof -
  have "w_id (workouts m ! i) = selectedWorkoutId m \<longleftrightarrow> workouts m ! i = w"
    using assms by (intro find_distinct_id [of "workouts m"]) (simp_all add: selectedWorkout_def)
  then show ?thesis
    using assms(3) by (auto simp: updateWorkoutExercises_def Let_def)
qed

section \<open>The claims\<close>

text \<open>
  Claim C1. When the store answers and the stored history is readable, \<open>saveWorkoutSession\<close>
  puts at the head of the history a session that holds the exercises of the workout as
  they are at the call, with \<open>totalSets\<close> the sum of their \<open>sets\<close> and \<open>totalVolume\<close> the
  sum of \<open>sets\<close> times \<open>weight\<close>; replacing the exercises of a workout afterwards leaves
  the recorded history as it is. For the exercises (3 sets at 60) and (4 sets at 0) the
  totals are 7 and 180.
\<close>

theorem complete_totals:
  assumes "faults e = []" and "readHistory e = Some old"
  shows "readHistory (saveWorkoutSession idNow now workout e)
           = Some (stringify_Session (newSession idNow now workout) # old)
       \<and> sj_exercises (stringify_Session (newSession idNow now workout)) = w_exercises workout
       \<and> sj_totalSets (stringify_Session (newSession idNow now workout))
           = sum_list (map sets (w_exercises workout))
       \<and> sj_totalVolume (stringify_Session (newSession idNow now workout))
           = sum_list (map (\<lambda>ex. of_int (sets ex) * weight ex) (w_exercises workout))
       \<and> readHistory (snd (updateWorkoutExercises exs (m, saveWorkoutSession idNow now workout e)))
           = readHistory (saveWorkoutSession idNow now workout e)"
  by (simp add: readHistory_saveWorkoutSession [OF assms] readHistory_updateWorkoutExercises
        stringify_Session_def newSession_def foldl_add_sum_list)

theorem complete_totals_witness:
  "faults no_store = [] \<and> readHistory no_store = Some []
   \<and> map (\<lambda>ex. (sets ex, weight ex)) (w_exercises leg_day) = [(3, 60), (4, 0)]
   \<and> readHistory (saveWorkoutSession 9 (Date 9) leg_day no_store)
       = Some [stringify_Session (newSession 9 (Date 9) leg_day)]
   \<and> sj_totalSets (stringify_Session (newSession 9 (Date 9) leg_day)) = 7
   \<and> sj_totalVolume (stringify_Session (newSession 9 (Date 9) leg_day)) = 180"
proof -
  have h1: "faults no_store = []" and h2: "readHistory no_store = Some []"
    by (simp_all add: no_store_def readHistory_def)
  have x: "map (\<lambda>ex. (sets ex, weight ex)) (w_exercises leg_day) = [(3, 60), (4, 0)]"
    and s: "sum_list (map sets (w_exercises leg_day)) = 7"
    and v: "sum_list (map (\<lambda>ex. of_int (sets ex) * weight ex) (w_exercises leg_day)) = 180"
    by (simp_all add: leg_day_def)
  show ?thesis
    using complete_totals [OF h1 h2, of 9 "Date 9" leg_day] h1 h2 x
    unfolding s v by simp
qed

text \<open>
  Claim C2. The guard of \<open>deleteWorkout\<close> does not keep the collection from becoming
  empty: after the first load, two workouts created in the same millisecond share their
  id; once the two default workouts are deleted, these two are left, the guard lets the
  next deletion pass, and that deletion removes both.
\<close>

theorem deleteWorkout_empties_collection:
  "workouts (fst seeded) \<noteq> []
   \<and> length (workouts (fst (run same_millisecond seeded))) = 2
   \<and> workouts (fst (deleteWorkout (toString 1700000000000) Delete
        (run same_millisecond seeded))) = []"
  by (simp add: same_millisecond_def seeded_eq setNewWorkoutName_def createNewWorkout_def
        deleteWorkout_def Let_def trim_def js_def isWhiteSpace_def DEFAULT_WORKOUTS_def
        toString_def digits.simps)

text \<open>
  Claim C3. \<open>createNewWorkout\<close> with a name made of white space only (or empty) returns
  the state as it was and shows the validation message, nothing else. With any other
  name, and a store that answers, the collection is the old one with one workout
  appended, that workout has no exercises, it is the selection, and the store holds the
  new collection and the new selection.
\<close>

theorem createNewWorkout_spec:
  "((\<forall>c \<in> set (newWorkoutName m). isWhiteSpace c) \<longrightarrow>
       createNewWorkout idNow createdNow (m, e)
         = (m, Alert_alert (js ''Error'') (js ''Please enter a workout name'') e))
   \<and> (\<not> (\<forall>c \<in> set (newWorkoutName m). isWhiteSpace c) \<and> faults e = [] \<longrightarrow>
       length (workouts (fst (createNewWorkout idNow createdNow (m, e))))
         = length (workouts m) + 1
     \<and> butlast (workouts (fst (createNewWorkout idNow createdNow (m, e)))) = workouts m
     \<and> w_exercises (last (workouts (fst (createNewWorkout idNow createdNow (m, e))))) = []
     \<and> selectedWorkoutId (fst (createNewWorkout idNow createdNow (m, e)))
         = w_id (last (workouts (fst (createNewWorkout idNow createdNow (m, e)))))
     \<and> workouts_item (storage (snd (createNewWorkout idNow createdNow (m, e))))
         = Some (Json (map stringify_Workout
              (workouts (fst (createNewWorkout idNow createdNow (m, e))))))
     \<and> selected_item (storage (snd (createNewWorkout idNow createdNow (m, e))))
         = Some (selectedWorkoutId (fst (createNewWorkout idNow createdNow (m, e)))))"
proof (intro conjI impI)
  assume "\<forall>c \<in> set (newWorkoutName m). isWhiteSpace c"
  then show "createNewWorkout idNow createdNow (m, e)
              = (m, Alert_alert (js ''Error'') (js ''Please enter a workout name'') e)"
    by (simp add: createNewWorkout_def trim_empty_iff)
next
  let ?new = "\<lparr>w_id = toString idNow, w_name = trim (newWorkoutName m),
               w_exercises = [], createdAt = createdNow\<rparr>"
  assume a: "\<not> (\<forall>c \<in> set (newWorkoutName m). isWhiteSpace c) \<and> faults e = []"
  then have t: "trim (newWorkoutName m) \<noteq> []" and f: "faults e = []"
    by (simp_all add: trim_empty_iff)
  have c: "createNewWorkout idNow createdNow (m, e) =
          (m\<lparr>workouts := workouts m @ [?new], selectedWorkoutId := toString idNow,
             newWorkoutName := [], showCreateModal := False\<rparr>,
           e\<lparr>storage := (storage e)\<lparr>workouts_item :=
                 Some (Json (map stringify_Workout (workouts m @ [?new]))),
                 selected_item := Some (toString idNow)\<rparr>\<rparr>)"
    using t by (simp add: createNewWorkout_def Let_def saveWorkouts_resolves f
          saveSelectedWorkout_resolves)
  show "length (workouts (fst (createNewWorkout idNow createdNow (m, e))))
              = length (workouts m) + 1"
    and "butlast (workouts (fst (createNewWorkout idNow createdNow (m, e)))) = workouts m"
    and "w_exercises (last (workouts (fst (createNewWorkout idNow createdNow (m, e))))) = []"
    and "selectedWorkoutId (fst (createNewWorkout idNow createdNow (m, e)))
              = w_id (last (workouts (fst (createNewWorkout idNow createdNow (m, e)))))"
    and "workouts_item (storage (snd (createNewWorkout idNow createdNow (m, e))))
              = Some (Json (map stringify_Workout
                   (workouts (fst (createNewWorkout idNow createdNow (m, e))))))"
    and "selected_item (storage (snd (createNewWorkout idNow createdNow (m, e))))
              = Some (selectedWorkoutId (fst (createNewWorkout idNow createdNow (m, e))))"
    unfolding c by simp_all
qed

theorem createNewWorkout_spec_witness:
  "trim (js ''  '') = []
   \<and> createNewWorkout 5 (Date 5) ((fst seeded)\<lparr>newWorkoutName := js ''  ''\<rparr>, snd seeded)
       = ((fst seeded)\<lparr>newWorkoutName := js ''  ''\<rparr>,
          Alert_alert (js ''Error'') (js ''Please enter a workout name'') (snd seeded))
   \<and> trim (js '' Legs'') = js ''Legs'' \<and> faults (snd seeded) = []
   \<and> length (workouts (fst (createNewWorkout 5 (Date 5)
         ((fst seeded)\<lparr>newWorkoutName := js '' Legs''\<rparr>, snd seeded)))) = 3
   \<and> w_exercises (last (workouts (fst (createNewWorkout 5 (Date 5)
         ((fst seeded)\<lparr>newWorkoutName := js '' Legs''\<rparr>, snd seeded))))) = []
   \<and> selected_item (storage (snd (createNewWorkout 5 (Date 5)
         ((fst seeded)\<lparr>newWorkoutName := js '' Legs''\<rparr>, snd seeded))))
       = Some (selectedWorkoutId (fst (createNewWorkout 5 (Date 5)
           ((fst seeded)\<lparr>newWorkoutName := js '' Legs''\<rparr>, snd seeded))))"
proof -
  let ?blank = "(fst seeded)\<lparr>newWorkoutName := js ''  ''\<rparr>"
  let ?legs = "(fst seeded)\<lparr>newWorkoutName := js '' Legs''\<rparr>"
  have b: "\<forall>c \<in> set (js ''  ''). isWhiteSpace c"
    and n: "\<not> (\<forall>c \<in> set (js '' Legs''). isWhiteSpace c)"
    and t: "trim (js ''  '') = []" "trim (js '' Legs'') = js ''Legs''"
    by (simp_all add: js_def isWhiteSpace_def trim_def)
  have f: "faults (snd seeded) = []"
    by (simp add: seeded_eq no_store_def)
  have l: "length (workouts (fst seeded)) = 2"
    by (simp add: seeded_eq DEFAULT_WORKOUTS_def)
  show ?thesis
    using createNewWorkout_spec [of ?blank 5 "Date 5" "snd seeded"]
      createNewWorkout_spec [of ?legs 5 "Date 5" "snd seeded"] b n f l t
    by simp
qed

text \<open>
  Claim C4. With a store that answers and a readable history (empty when the key is
  absent), a run of \<open>saveWorkoutSession\<close> calls leaves the history made of the new
  sessions, the last call first, followed by the sessions that were there. When the clock
  did not go back between the calls, and the sessions that were there were ordered and
  not newer than the calls, the history is ordered by completion time, newest first.
\<close>

theorem history_newest_first:
  assumes "faults e = []" and "readHistory e = Some old"
  shows "readHistory (complete_all calls e) = Some (rev (map session_of_call calls) @ old)
       \<and> (newest_first old
            \<and> (\<forall>s \<in> set old. \<forall>c \<in> set calls. completion_time s \<le> completion_time (session_of_call c))
            \<and> sorted (map (\<lambda>(idNow, now, workout). getTime now) calls) \<longrightarrow>
            newest_first (the (readHistory (complete_all calls e))))"
proof (intro conjI impI)
  show r: "readHistory (complete_all calls e) = Some (rev (map session_of_call calls) @ old)"
    by (rule readHistory_complete_all [OF assms])
  assume a: "newest_first old
            \<and> (\<forall>s \<in> set old. \<forall>c \<in> set calls. completion_time s \<le> completion_time (session_of_call c))
            \<and> sorted (map (\<lambda>(idNow, now, workout). getTime now) calls)"
  then have "newest_first (rev (map session_of_call calls))"
    by (intro newest_first_rev_calls) simp
  with a have "newest_first (rev (map session_of_call calls) @ old)"
    unfolding newest_first_def by (auto simp: sorted_wrt_append)
  then show "newest_first (the (readHistory (complete_all calls e)))"
    by (simp add: r)
qed

theorem history_newest_first_witness:
  "faults one_session = []
   \<and> readHistory one_session = Some [stringify_Session (newSession 9 (Date 9) leg_day)]
   \<and> map completion_time [stringify_Session (newSession 9 (Date 9) leg_day)] = [9]
   \<and> map (\<lambda>(idNow, now, workout). getTime now)
        [(10, Date 10, leg_day), (20, Date 20, leg_day)] = [10, 20]
   \<and> map completion_time
        (the (readHistory (complete_all [(10, Date 10, leg_day), (20, Date 20, leg_day)] one_session)))
       = [20, 10, 9]
   \<and> newest_first
        (the (readHistory (complete_all [(10, Date 10, leg_day), (20, Date 20, leg_day)] one_session)))"
proof -
  let ?old = "[stringify_Session (newSession 9 (Date 9) leg_day)]"
  let ?calls = "[(10, Date 10, leg_day), (20, Date 20, leg_day)]"
  have t: "completion_time (stringify_Session (newSession 9 (Date 9) leg_day)) = 9"
    using completion_time_session_of_call [of 9 "Date 9" leg_day]
    by (simp add: session_of_call_def)
  have h1: "faults one_session = []" and h2: "readHistory one_session = Some ?old"
    by (rule viewer_eq)+
  have h3: "newest_first ?old"
    by (simp add: newest_first_def)
  have h4: "\<forall>s \<in> set ?old. \<forall>c \<in> set ?calls.
              completion_time s \<le> completion_time (session_of_call c)"
    by (simp add: t completion_time_session_of_call)
  have h5: "sorted (map (\<lambda>(idNow, now, workout). getTime now) ?calls)"
    by simp
  have "readHistory (complete_all ?calls one_session)
          = Some (rev (map session_of_call ?calls) @ ?old)"
    and "newest_first (the (readHistory (complete_all ?calls one_session)))"
    using history_newest_first [OF h1 h2, of ?calls] h3 h4 h5 by blast+
  then show ?thesis
    using h1 h2 by (simp add: t completion_time_session_of_call)
qed

text \<open>
  Claim C5. With a store that answers, \<open>saveWorkouts\<close> stores the JSON form of the
  collection, the dates as ISO strings, and \<open>loadWorkouts\<close> on the store so written puts
  the collection back in the state, equal to the one saved, each \<open>createdAt\<close> a \<open>Date\<close>
  again.
\<close>

theorem workouts_round_trip:
  assumes "faults e = []"
  shows "workouts_item (storage (saveWorkouts ws e)) = Some (Json (map stringify_Workout ws))
       \<and> workouts (fst (loadWorkouts d1 d2 (m, saveWorkouts ws e))) = ws"
proof -
  have "workouts (fst (loadWorkouts d1 d2 (m, saveWorkouts ws e)))
          = map (\<lambda>w. \<lparr>w_id = wj_id w, w_name = wj_name w, w_exercises = wj_exercises w,
                       createdAt = new_Date (wj_createdAt w)\<rparr>) (map stringify_Workout ws)"
    unfolding saveWorkouts_resolves [OF assms]
    by (simp add: loadWorkouts_def getItem_resolves assms Let_def)
  also have "\<dots> = ws"
    by (simp add: comp_def parse_stringify_Workout)
  finally show ?thesis
    by (simp add: saveWorkouts_resolves assms)
qed

theorem workouts_round_trip_witness:
  "faults no_store = []
   \<and> workouts_item (storage (saveWorkouts [leg_day] no_store))
       = Some (Json [\<lparr>wj_id = js ''7'', wj_name = js ''Legs'',
                       wj_exercises = w_exercises leg_day, wj_createdAt = ISOString 5\<rparr>])
   \<and> workouts (fst (loadWorkouts (Date 1) (Date 2)
        (WorkoutManager_init, saveWorkouts [leg_day] no_store))) = [leg_day]"
proof -
  have h: "faults no_store = []"
    by (simp add: no_store_def)
  have j: "stringify_Workout leg_day
             = \<lparr>wj_id = js ''7'', wj_name = js ''Legs'',
                wj_exercises = w_exercises leg_day, wj_createdAt = ISOString 5\<rparr>"
    by (simp add: stringify_Workout_def leg_day_def toJSON_def)
  show ?thesis
    using workouts_round_trip [OF h, of "[leg_day]" "Date 1" "Date 2" WorkoutManager_init] h
    by (simp add: j)
qed

text \<open>
  Claim C6. When the key of the collection is absent and the store answers, \<open>loadWorkouts\<close>
  sets the state to the two default workouts, named Push Day and Pull Day, each with
  exercises, selects the id of Push Day, and stores the default collection.
\<close>

theorem load_seeds_defaults:
  assumes "faults e = []" and "workouts_item (storage e) = None"
  shows "workouts (fst (loadWorkouts d1 d2 (m, e))) = DEFAULT_WORKOUTS d1 d2
       \<and> length (workouts (fst (loadWorkouts d1 d2 (m, e)))) = 2
       \<and> map w_name (workouts (fst (loadWorkouts d1 d2 (m, e))))
           = [js ''Push Day'', js ''Pull Day'']
       \<and> (\<forall>w \<in> set (workouts (fst (loadWorkouts d1 d2 (m, e)))). w_exercises w \<noteq> [])
       \<and> selectedWorkoutId (fst (loadWorkouts d1 d2 (m, e)))
           = w_id (workouts (fst (loadWorkouts d1 d2 (m, e))) ! 0)
       \<and> selectedWorkoutId (fst (loadWorkouts d1 d2 (m, e))) = js ''1''
       \<and> map_option w_name (selectedWorkout (fst (loadWorkouts d1 d2 (m, e))))
           = Some (js ''Push Day'')
       \<and> workouts_item (storage (snd (loadWorkouts d1 d2 (m, e))))
            = Some (Json (map stringify_Workout (DEFAULT_WORKOUTS d1 d2)))"
proof -
  have l: "loadWorkouts d1 d2 (m, e) =
             (m\<lparr>workouts := DEFAULT_WORKOUTS d1 d2,
                selectedWorkoutId := first_id (DEFAULT_WORKOUTS d1 d2), isLoading := False\<rparr>,
              saveWorkouts (DEFAULT_WORKOUTS d1 d2) e)"
    using assms by (simp add: loadWorkouts_def getItem_resolves)
  have i: "first_id (DEFAULT_WORKOUTS d1 d2) = js ''1''"
    by (simp add: DEFAULT_WORKOUTS_def js_def)
  show ?thesis
    unfolding l
    by (simp add: i saveWorkouts_resolves assms(1) selectedWorkout_def)
       (simp add: DEFAULT_WORKOUTS_def js_def)
qed

theorem load_seeds_defaults_witness:
  "faults no_store = [] \<and> workouts_item (storage no_store) = None
   \<and> map w_name (workouts (fst (loadWorkouts (Date 1) (Date 2) (WorkoutManager_init, no_store))))
       = [js ''Push Day'', js ''Pull Day'']
   \<and> map (\<lambda>w. length (w_exercises w))
        (workouts (fst (loadWorkouts (Date 1) (Date 2) (WorkoutManager_init, no_store)))) = [2, 2]
   \<and> selectedWorkoutId (fst (loadWorkouts (Date 1) (Date 2) (WorkoutManager_init, no_store)))
       = js ''1''
   \<and> map_option w_name
        (selectedWorkout (fst (loadWorkouts (Date 1) (Date 2) (WorkoutManager_init, no_store))))
       = Some (js ''Push Day'')
   \<and> workouts_item (storage (snd (loadWorkouts (Date 1) (Date 2) (WorkoutManager_init, no_store))))
       = Some (Json (map stringify_Workout (DEFAULT_WORKOUTS (Date 1) (Date 2))))"
proof -
  have h1: "faults no_store = []" and h2: "workouts_item (storage no_store) = None"
    by (simp_all add: no_store_def)
  show ?thesis
    using load_seeds_defaults [OF h1 h2, of "Date 1" "Date 2" WorkoutManager_init] h1 h2
    by (simp add: DEFAULT_WORKOUTS_def)
qed

text \<open>
  Claim C7. With more than one workout and a store that answers, the confirmed
  \<open>deleteWorkout\<close> keeps the workouts whose id is not the given one, in their order. When
  the given id was the selection, the selection becomes the id of the first workout kept,
  or the empty string when none is kept; otherwise it stays. The store holds the new
  collection, and it holds the new selection when the selection changed: when it did not,
  the stored selection is the one that was there.
\<close>

theorem delete_confirmed:
  assumes "faults e = []" and "length (workouts m) > 1"
  shows "workouts (fst (deleteWorkout workoutId Delete (m, e)))
           = filter (\<lambda>w. w_id w \<noteq> workoutId) (workouts m)
       \<and> selectedWorkoutId (fst (deleteWorkout workoutId Delete (m, e)))
           = (if selectedWorkoutId m = workoutId
              then (case filter (\<lambda>w. w_id w \<noteq> workoutId) (workouts m) of
                      [] \<Rightarrow> [] | w # _ \<Rightarrow> w_id w)
              else selectedWorkoutId m)
       \<and> workouts_item (storage (snd (deleteWorkout workoutId Delete (m, e))))
           = Some (Json (map stringify_Workout
                (filter (\<lambda>w. w_id w \<noteq> workoutId) (workouts m))))
       \<and> selected_item (storage (snd (deleteWorkout workoutId Delete (m, e))))
           = (if selectedWorkoutId (fst (deleteWorkout workoutId Delete (m, e)))
                   \<noteq> selectedWorkoutId m
              then Some (selectedWorkoutId (fst (deleteWorkout workoutId Delete (m, e))))
              else selected_item (storage e))"
proof -
  let ?e0 = "Alert_alert (js ''Delete Workout'')
               (js ''Are you sure you want to delete this workout?'') e"
  have f0: "faults ?e0 = []"
    by (simp add: Alert_alert_def assms(1))
  have s0: "storage ?e0 = storage e"
    by (simp add: Alert_alert_def)
  show ?thesis
    using assms(2)
    by (simp add: deleteWorkout_def Let_def saveWorkouts_resolves [OF f0]
          saveSelectedWorkout_resolves f0 s0 first_id_eq)
qed

theorem delete_confirmed_witness:
  "faults (snd seeded) = [] \<and> length (workouts (fst seeded)) > 1
   \<and> selectedWorkoutId (fst seeded) = js ''1''
   \<and> map w_name (workouts (fst (deleteWorkout (js ''1'') Delete seeded))) = [js ''Pull Day'']
   \<and> selectedWorkoutId (fst (deleteWorkout (js ''1'') Delete seeded)) = js ''2''
   \<and> selected_item (storage (snd (deleteWorkout (js ''1'') Delete seeded))) = Some (js ''2'')"
proof -
  have h1: "faults (snd seeded) = []" and h2: "length (workouts (fst seeded)) > 1"
    by (simp_all add: seeded_eq no_store_def DEFAULT_WORKOUTS_def)
  show ?thesis
    using delete_confirmed [OF h1 h2, of "js ''1''"] h1 h2
    by (simp add: seeded_eq DEFAULT_WORKOUTS_def js_def)
qed

text \<open>
  Claim C8. \<open>addNewExercise\<close> does not give a fresh id: two calls within one millisecond,
  on an empty list, leave two exercises with the same id, and both are rendered as the
  one being edited.
\<close>

theorem addNewExercise_repeats_id:
  "length (exercises added_twice) = 2
   \<and> e_id (exercises added_twice ! 1) = e_id (exercises added_twice ! 0)
   \<and> \<not> distinct (map e_id (exercises added_twice))
   \<and> isEditing added_twice (exercises added_twice ! 0)
   \<and> isEditing added_twice (exercises added_twice ! 1)"
  by (simp add: added_twice_def addNewExercise_def Let_def isEditing_def)

text \<open>
  Claim C9. When the store answers, the list in memory is the stored history as it was
  read, and no session has the given id, the confirmed \<open>deleteSession\<close> leaves the list
  and the stored history as they were, logs nothing and shows no dialog but the
  confirmation.
\<close>

theorem deleteSession_absent_id:
  assumes "faults e = []"
    and "sessionId \<notin> s_id ` set (sessions p)"
    and "readHistory e = Some h" and "sessions p = map parse_Session h"
  shows "sessions (fst (deleteSession sessionId Delete (p, e))) = sessions p
       \<and> readHistory (snd (deleteSession sessionId Delete (p, e))) = readHistory e
       \<and> console (snd (deleteSession sessionId Delete (p, e))) = console e
       \<and> alerts (snd (deleteSession sessionId Delete (p, e)))
           = alerts e @ [(js ''Delete Workout'',
                js ''Are you sure you want to remove this workout from your history?'')]"
proof -
  let ?e0 = "Alert_alert (js ''Delete Workout'')
               (js ''Are you sure you want to remove this workout from your history?'') e"
  have k: "filter (\<lambda>session. s_id session \<noteq> sessionId) (sessions p) = sessions p"
    using assms(2) by (auto simp: filter_id_conv)
  have f0: "faults ?e0 = []"
    by (simp add: Alert_alert_def assms(1))
  have d: "deleteSession sessionId Delete (p, e)
             = (p, ?e0\<lparr>storage := (storage ?e0)\<lparr>sessions_item := Some (Json h)\<rparr>\<rparr>)"
    by (simp add: deleteSession_def Let_def k setItem_resolves [OF f0])
       (simp add: assms(4) stringify_parse_Session)
  show ?thesis
    unfolding d using assms(3)
    by (simp add: Alert_alert_def readHistory_def)
qed

theorem deleteSession_absent_id_witness:
  "faults (snd viewer) = []
   \<and> map s_id (sessions (fst viewer)) = [js ''9'']
   \<and> readHistory (snd viewer) = Some [stringify_Session (newSession 9 (Date 9) leg_day)]
   \<and> sessions (fst viewer) = map parse_Session [stringify_Session (newSession 9 (Date 9) leg_day)]
   \<and> sessions (fst (deleteSession (js ''10'') Delete viewer)) = [newSession 9 (Date 9) leg_day]
   \<and> readHistory (snd (deleteSession (js ''10'') Delete viewer))
       = Some [stringify_Session (newSession 9 (Date 9) leg_day)]
   \<and> console (snd (deleteSession (js ''10'') Delete viewer)) = []"
proof -
  have i: "map s_id (sessions (fst viewer)) = [js ''9'']"
    by (simp add: viewer_eq newSession_def toString_def digits.simps js_def)
  have h1: "faults (snd viewer) = []"
    by (simp add: viewer_eq)
  have h2: "js ''10'' \<notin> s_id ` set (sessions (fst viewer))"
    using i by (simp add: viewer_eq js_def)
  have h3: "readHistory (snd viewer) = Some [stringify_Session (newSession 9 (Date 9) leg_day)]"
    by (simp add: viewer_eq)
  have h4: "sessions (fst viewer)
              = map parse_Session [stringify_Session (newSession 9 (Date 9) leg_day)]"
    by (simp add: viewer_eq parse_Session_def stringify_Session_def toJSON_def new_Date_def
          newSession_def)
  have c: "console (snd viewer) = []"
    by (simp add: viewer_eq(1) one_session_def no_store_def saveWorkoutSession_def
          getItem_def setItem_def Alert_alert_def)
  show ?thesis
    using deleteSession_absent_id [OF h1 h2 h3 h4] h1 h3 h4 i c
    by (simp add: viewer_eq(1))
qed

text \<open>
  Claim C10. \<open>updateWorkoutExercises\<close> does not keep to the selected workout: after the
  first load, two workouts A and B created in the same millisecond share their id; with
  the two default workouts deleted, A is the selected workout, and replacing its
  exercises gives B the same exercises, where B had none.
\<close>

theorem updateWorkoutExercises_overwrites_twin:
  "map w_name (workouts (fst (run same_millisecond seeded))) = [js ''A'', js ''B'']
   \<and> map_option w_name (selectedWorkout (fst (run same_millisecond seeded))) = Some (js ''A'')
   \<and> map w_exercises (workouts (fst (run same_millisecond seeded))) = [[], []]
   \<and> map w_exercises
        (workouts (fst (updateWorkoutExercises [curl] (run same_millisecond seeded))))
       = [[curl], [curl]]"
  by (simp add: same_millisecond_def seeded_eq setNewWorkoutName_def createNewWorkout_def
        deleteWorkout_def updateWorkoutExercises_def selectedWorkout_def Let_def trim_def
        js_def isWhiteSpace_def DEFAULT_WORKOUTS_def toString_def digits.simps)

end
